theory Spec2Isabelle
  imports Main "HOL-Library.AList"
begin

section \<open>Errors\<close>

text \<open>
  Go errors as values. \<open>Errorf\<close> is an error built from a message alone
  (\<open>fmt.Errorf\<close> without \<open>%w\<close>, \<open>errors.New\<close>); \<open>Wrapf m e\<close> is
  \<open>fmt.Errorf("m: %w", e)\<close>, which keeps \<open>e\<close> on its unwrap chain. The two typed errors
  of the Cognito SDK that the AWS client inspects with \<open>errors.As\<close> are constructors of
  their own.
\<close>

datatype error =
    Errorf string
  | Wrapf string error
  | UserNotFoundException string
  | UsernameExistsException string

text \<open>\<open>errors.As(err, &userNotFoundErr)\<close>: some error of the unwrap chain has the type.\<close>

fun asUserNotFoundException :: "error \<Rightarrow> bool" where
  "asUserNotFoundException (UserNotFoundException m) = True"
| "asUserNotFoundException (Wrapf m e) = asUserNotFoundException e"
| "asUserNotFoundException (Errorf m) = False"
| "asUserNotFoundException (UsernameExistsException m) = False"

fun asUsernameExistsException :: "error \<Rightarrow> bool" where
  "asUsernameExistsException (UsernameExistsException m) = True"
| "asUsernameExistsException (Wrapf m e) = asUsernameExistsException e"
| "asUsernameExistsException (Errorf m) = False"
| "asUsernameExistsException (UserNotFoundException m) = False"

section \<open>Data model\<close>

text \<open>\<open>metav1.Time\<close>: a point in time, here seconds since the epoch.\<close>

type_synonym time = nat

text \<open>\<open>userpool.User\<close>, the account as the user pool client sees it.\<close>

record pool_user =
  Username :: string
  Email :: string
  Enabled :: bool
  Sub :: string

text \<open>\<open>UserSpec\<close> and \<open>UserStatus\<close> of api/v1alpha1/user_types.go. A condition is kept as
  its type and status strings; the controller never reads or writes conditions.\<close>

record user_spec =
  Spec_Email :: string
  Spec_Enabled :: bool

record user_status =
  Status_Sub :: string
  UserPoolStatus :: string
  LastSyncTime :: "time option"
  ObservedGeneration :: int
  Conditions :: "(string \<times> string) list"

text \<open>
  \<open>User\<close>: the fields of \<open>metav1.ObjectMeta\<close> the controller touches, the spec and the
  status. A Go slice is a list and a Go map an association list; a nil slice and an empty
  one (a nil map and an empty one) are the same value here, as they are for \<open>range\<close>,
  \<open>len\<close> and \<open>append\<close>.
\<close>

record user =
  Name :: string
  Finalizers :: "string list"
  DeletionTimestamp :: "time option"
  Annotations :: "(string \<times> string) list"
  Spec :: user_spec
  Status :: user_status

text \<open>\<open>ctrl.Result\<close>; \<open>RequeueAfter\<close> is a \<open>time.Duration\<close>, in nanoseconds.\<close>

record result =
  Requeue :: bool
  RequeueAfter :: int

definition emptyResult :: result where
  "emptyResult = \<lparr>Requeue = False, RequeueAfter = 0\<rparr>"

definition Minute :: int where
  "Minute = 60 * 1000000000"

text \<open>\<open>mcreconcile.Request\<close>: the cluster and the namespaced name.\<close>

record request =
  ClusterName :: string
  Namespace :: string
  ReqName :: string

section \<open>The collaborators\<close>

text \<open>
  \<open>userpool.Client\<close>, the interface of the user pool, over a pool state \<open>'p\<close>: every
  method takes the pool's state and returns its answer with the new state. A Go return
  \<open>(*User, error)\<close> is a sum: the error, or the account. (An implementation returning a
  nil account with a nil error is outside the interface's convention and outside this
  type.)
\<close>

record 'p client =
  GetUser :: "string \<Rightarrow> 'p \<Rightarrow> (error + pool_user) \<times> 'p"
  CreateUser :: "pool_user \<Rightarrow> 'p \<Rightarrow> (error + pool_user) \<times> 'p"
  UpdateUser :: "pool_user \<Rightarrow> 'p \<Rightarrow> error option \<times> 'p"
  DeleteUser :: "string \<Rightarrow> 'p \<Rightarrow> error option \<times> 'p"

text \<open>
  The object store behind \<open>r.Manager.GetCluster\<close> and the cluster's client, over a store
  state \<open>'k\<close>: \<open>GetCluster\<close> fails or not, \<open>KubeGet\<close> is \<open>clusterClient.Get\<close>,
  \<open>KubeUpdate\<close> is \<open>clusterClient.Update\<close> and \<open>KubeStatusUpdate\<close> is
  \<open>clusterClient.Status().Update\<close>. A write answers with an error or nil and changes
  the store; what the client library may copy back from the server into the caller's
  object is not modelled, and nothing below depends on it.
\<close>

datatype fetch = Fetched user | FetchNotFound | FetchError error

record 'k manager =
  GetCluster :: "string \<Rightarrow> error option"
  KubeGet :: "request \<Rightarrow> 'k \<Rightarrow> fetch"
  KubeUpdate :: "request \<Rightarrow> user \<Rightarrow> 'k \<Rightarrow> error option \<times> 'k"
  KubeStatusUpdate :: "request \<Rightarrow> user \<Rightarrow> 'k \<Rightarrow> error option \<times> 'k"

text \<open>
  \<open>UserReconciler\<close>: the manager, the user pool client (nil when no pool is
  configured) and the clock: what \<open>metav1.Now()\<close> returns and what
  \<open>time.Now().Format(time.RFC3339)\<close> renders during the pass.
\<close>

record ('k, 'p) reconciler =
  Manager :: "'k manager"
  UserPoolClient :: "'p client option"
  MetaNow :: time
  TimeNowRFC3339 :: string

text \<open>
  The calls a pass makes, in order: the trace. A write to the object store carries the
  object written and whether the store accepted it.
\<close>

datatype event =
    GetUserCall string
  | CreateUserCall pool_user
  | UpdateUserCall pool_user
  | DeleteUserCall string
  | KubeUpdateCall user bool
  | KubeStatusUpdateCall user bool

record ('k, 'p) world =
  kube :: 'k
  pool :: 'p
  trace :: "event list"

text \<open>A call through an interface: the answer, the collaborator's new state, one more
  event on the trace.\<close>

definition callGetUser ::
  "'p client \<Rightarrow> string \<Rightarrow> ('k, 'p) world \<Rightarrow> (error + pool_user) \<times> ('k, 'p) world" where
  "callGetUser c ident w =
     (case GetUser c ident (pool w) of
        (r, p') \<Rightarrow> (r, w\<lparr>pool := p', trace := trace w @ [GetUserCall ident]\<rparr>))"

definition callCreateUser ::
  "'p client \<Rightarrow> pool_user \<Rightarrow> ('k, 'p) world \<Rightarrow> (error + pool_user) \<times> ('k, 'p) world" where
  "callCreateUser c pu w =
     (case CreateUser c pu (pool w) of
        (r, p') \<Rightarrow> (r, w\<lparr>pool := p', trace := trace w @ [CreateUserCall pu]\<rparr>))"

definition callUpdateUser ::
  "'p client \<Rightarrow> pool_user \<Rightarrow> ('k, 'p) world \<Rightarrow> error option \<times> ('k, 'p) world" where
  "callUpdateUser c pu w =
     (case UpdateUser c pu (pool w) of
        (r, p') \<Rightarrow> (r, w\<lparr>pool := p', trace := trace w @ [UpdateUserCall pu]\<rparr>))"

definition callDeleteUser ::
  "'p client \<Rightarrow> string \<Rightarrow> ('k, 'p) world \<Rightarrow> error option \<times> ('k, 'p) world" where
  "callDeleteUser c ident w =
     (case DeleteUser c ident (pool w) of
        (r, p') \<Rightarrow> (r, w\<lparr>pool := p', trace := trace w @ [DeleteUserCall ident]\<rparr>))"

definition callKubeUpdate ::
  "'k manager \<Rightarrow> request \<Rightarrow> user \<Rightarrow> ('k, 'p) world \<Rightarrow> error option \<times> ('k, 'p) world" where
  "callKubeUpdate m req u w =
     (case KubeUpdate m req u (kube w) of
        (r, k') \<Rightarrow> (r, w\<lparr>kube := k', trace := trace w @ [KubeUpdateCall u (r = None)]\<rparr>))"

definition callKubeStatusUpdate ::
  "'k manager \<Rightarrow> request \<Rightarrow> user \<Rightarrow> ('k, 'p) world \<Rightarrow> error option \<times> ('k, 'p) world" where
  "callKubeStatusUpdate m req u w =
     (case KubeStatusUpdate m req u (kube w) of
        (r, k') \<Rightarrow> (r, w\<lparr>kube := k', trace := trace w @ [KubeStatusUpdateCall u (r = None)]\<rparr>))"

section \<open>The finalizer functions\<close>

definition finalizerName :: string where
  "finalizerName = ''kcp.cogniteo.io/user-pool-cleanup''"

text \<open>\<open>containsFinalizer\<close>: the loop returns true at the first equal element.\<close>

fun containsFinalizer :: "string list \<Rightarrow> string \<Rightarrow> bool" where
  "containsFinalizer [] finalizer = False"
| "containsFinalizer (f # fs) finalizer =
     (if f = finalizer then True else containsFinalizer fs finalizer)"

text \<open>\<open>removeFinalizer\<close>: the loop appends to \<open>result\<close>, which starts empty, every
  element that differs from \<open>finalizer\<close>.\<close>

fun removeFinalizerLoop :: "string list \<Rightarrow> string \<Rightarrow> string list \<Rightarrow> string list" where
  "removeFinalizerLoop [] finalizer result = result"
| "removeFinalizerLoop (f # fs) finalizer result =
     (if f \<noteq> finalizer then removeFinalizerLoop fs finalizer (result @ [f])
      else removeFinalizerLoop fs finalizer result)"

definition removeFinalizer :: "string list \<Rightarrow> string \<Rightarrow> string list" where
  "removeFinalizer finalizers finalizer = removeFinalizerLoop finalizers finalizer []"

text \<open>The finalizer-add step of \<open>Reconcile\<close>: append unless already present.\<close>

definition addFinalizer :: "string list \<Rightarrow> string \<Rightarrow> string list" where
  "addFinalizer finalizers finalizer =
     (if \<not> containsFinalizer finalizers finalizer then finalizers @ [finalizer]
      else finalizers)"

section \<open>The reconciler\<close>

text \<open>
  \<open>syncUserWithUserPool\<close>. The Go function mutates \<open>user\<close> in place and returns an
  error; here it returns the error and the user. On both error returns the user has not
  been written to.
\<close>

definition syncUserWithUserPool ::
  "'p client \<Rightarrow> time \<Rightarrow> user \<Rightarrow> ('k, 'p) world \<Rightarrow> (error option \<times> user) \<times> ('k, 'p) world" where
  "syncUserWithUserPool c now u w =
     (let poolUser = \<lparr>Username = Name u, Email = Spec_Email (Spec u),
                       Enabled = Spec_Enabled (Spec u), Sub = ''''\<rparr>
      in case (if Status_Sub (Status u) \<noteq> ''''
               then callGetUser c (Status_Sub (Status u)) w
               else callGetUser c (Spec_Email (Spec u)) w) of
           (Inl err, w1) \<Rightarrow>
             (case callCreateUser c poolUser w1 of
                (Inl err', w2) \<Rightarrow>
                  ((Some (Wrapf ''failed to create user in user pool'' err'), u), w2)
              | (Inr createdUser, w2) \<Rightarrow>
                  ((None, u\<lparr>Status := (Status u)\<lparr>Status_Sub := Sub createdUser,
                                                  UserPoolStatus := ''CONFIRMED'',
                                                  LastSyncTime := Some now\<rparr>\<rparr>), w2))
         | (Inr existingUser, w1) \<Rightarrow>
             (let stamped = u\<lparr>Status := (Status u)\<lparr>
                       LastSyncTime := Some now,
                       Status_Sub := (if Status_Sub (Status u) = '''' then Sub existingUser
                                      else Status_Sub (Status u))\<rparr>\<rparr>
              in if Email existingUser \<noteq> Email poolUser
                    \<or> Enabled existingUser \<noteq> Enabled poolUser
                 then (case callUpdateUser c poolUser w1 of
                         (Some err', w2) \<Rightarrow>
                           ((Some (Wrapf ''failed to update user in user pool'' err'), u), w2)
                       | (None, w2) \<Rightarrow> ((None, stamped), w2))
                 else ((None, stamped), w1)))"

text \<open>\<open>deleteUserFromUserPool\<close>: returns nothing; every failure is logged and dropped.\<close>

definition deleteUserFromUserPool ::
  "'p client \<Rightarrow> string \<Rightarrow> string \<Rightarrow> ('k, 'p) world \<Rightarrow> ('k, 'p) world" where
  "deleteUserFromUserPool c username sub w =
     (let identifier = (if sub = '''' then username else sub)
      in case callGetUser c identifier w of
           (Inl err, w1) \<Rightarrow> w1
         | (Inr found, w1) \<Rightarrow>
             (case callDeleteUser c identifier w1 of
                (Some err, w2) \<Rightarrow> w2
              | (None, w2) \<Rightarrow> w2))"

text \<open>
  \<open>Reconcile\<close>. The three writes to the object store are the finalizer write (removal
  on the deletion path, addition otherwise), the write of the annotated object and the
  write of the status.
\<close>

definition Reconcile ::
  "('k, 'p) reconciler \<Rightarrow> request \<Rightarrow> ('k, 'p) world
     \<Rightarrow> (result \<times> error option) \<times> ('k, 'p) world" where
  "Reconcile r req w =
     (case GetCluster (Manager r) (ClusterName req) of
        Some err \<Rightarrow> ((emptyResult, Some (Wrapf ''failed to get cluster'' err)), w)
      | None \<Rightarrow>
         (case KubeGet (Manager r) req (kube w) of
            FetchNotFound \<Rightarrow> ((emptyResult, None), w)
          | FetchError err \<Rightarrow> ((emptyResult, Some err), w)
          | Fetched fetched \<Rightarrow>
              if DeletionTimestamp fetched \<noteq> None then
                (let w1 = (case UserPoolClient r of
                             None \<Rightarrow> w
                           | Some c \<Rightarrow>
                               deleteUserFromUserPool c (Name fetched)
                                 (Status_Sub (Status fetched)) w);
                     user1 = fetched\<lparr>Finalizers :=
                               removeFinalizer (Finalizers fetched) finalizerName\<rparr>
                 in case callKubeUpdate (Manager r) req user1 w1 of
                      (Some err, w2) \<Rightarrow> ((emptyResult, Some err), w2)
                    | (None, w2) \<Rightarrow> ((emptyResult, None), w2))
              else
                (case (if \<not> containsFinalizer (Finalizers fetched) finalizerName
                       then (let user1 = fetched\<lparr>Finalizers :=
                                           Finalizers fetched @ [finalizerName]\<rparr>
                             in case callKubeUpdate (Manager r) req user1 w of
                                  (e, w1) \<Rightarrow> (e, user1, w1))
                       else (None, fetched, w)) of
                   (Some err, user1, w1) \<Rightarrow> ((emptyResult, Some err), w1)
                 | (None, user1, w1) \<Rightarrow>
                     (case (case UserPoolClient r of
                              None \<Rightarrow> ((None, user1), w1)
                            | Some c \<Rightarrow> syncUserWithUserPool c (MetaNow r) user1 w1) of
                        ((Some err, user2), w2) \<Rightarrow>
                          ((\<lparr>Requeue = False, RequeueAfter = Minute * 5\<rparr>, Some err), w2)
                      | ((None, user2), w2) \<Rightarrow>
                          (let user3 = user2\<lparr>Annotations :=
                                 AList.update ''kcp.cogniteo.io/lastReconciledAt''
                                   (TimeNowRFC3339 r) (Annotations user2)\<rparr>
                           in case callKubeUpdate (Manager r) req user3 w2 of
                                (Some err, w3) \<Rightarrow> ((emptyResult, Some err), w3)
                              | (None, w3) \<Rightarrow>
                                  (case callKubeStatusUpdate (Manager r) req user3 w3 of
                                     (Some err, w4) \<Rightarrow> ((emptyResult, Some err), w4)
                                   | (None, w4) \<Rightarrow> ((emptyResult, None), w4)))))))"

section \<open>The AWS Cognito client\<close>

text \<open>
  \<open>types.AttributeType\<close>: name and value are pointers, nil or a string. The inputs and
  outputs of the SDK keep the fields \<open>pkg/cognito/aws.go\<close> sets or reads.
\<close>

record attribute_type =
  AttrName :: "string option"
  AttrValue :: "string option"

record admin_create_user_input =
  In_UserPoolId :: string
  In_Username :: string
  In_UserAttributes :: "attribute_type list"
  In_MessageAction :: string

text \<open>\<open>AdminCreateUserOutput.User\<close> is nil or a user, kept as its attributes;
  \<open>AdminGetUserOutput\<close> carries the enabled flag and the attributes.\<close>

record admin_create_user_output =
  Out_User :: "attribute_type list option"

record admin_get_user_output =
  Out_Enabled :: bool
  Out_UserAttributes :: "attribute_type list"

text \<open>
  \<open>CognitoAPI\<close>, the interface of the SDK client, over the provider's state \<open>'p\<close>. The
  calls other than create take the user pool id and the username (and the attributes,
  for the attribute update).
\<close>

record 'p cognito_api =
  AdminCreateUser ::
    "admin_create_user_input \<Rightarrow> 'p \<Rightarrow> (error + admin_create_user_output) \<times> 'p"
  AdminGetUser :: "string \<Rightarrow> string \<Rightarrow> 'p \<Rightarrow> (error + admin_get_user_output) \<times> 'p"
  AdminUpdateUserAttributes ::
    "string \<Rightarrow> string \<Rightarrow> attribute_type list \<Rightarrow> 'p \<Rightarrow> error option \<times> 'p"
  AdminEnableUser :: "string \<Rightarrow> string \<Rightarrow> 'p \<Rightarrow> error option \<times> 'p"
  AdminDisableUser :: "string \<Rightarrow> string \<Rightarrow> 'p \<Rightarrow> error option \<times> 'p"
  AdminDeleteUser :: "string \<Rightarrow> string \<Rightarrow> 'p \<Rightarrow> error option \<times> 'p"

record 'p aws_client =
  cognito :: "'p cognito_api"
  userPoolID :: string

text \<open>
  The attribute loops of \<open>CreateUser\<close> and \<open>GetUser\<close>: the value of the first attribute
  with the given name and a non-nil value, where the loop breaks.
\<close>

fun firstAttribute :: "string \<Rightarrow> attribute_type list \<Rightarrow> string option" where
  "firstAttribute n [] = None"
| "firstAttribute n (attr # attrs) =
     (if AttrName attr = Some n \<and> AttrValue attr \<noteq> None then AttrValue attr
      else firstAttribute n attrs)"

text \<open>
  The methods of \<open>AWSClient\<close>. They take an account, not a pointer: the nil checks of
  \<open>CreateUser\<close> and \<open>UpdateUser\<close> have no counterpart.
\<close>

definition AWSClient_GetUser ::
  "'p aws_client \<Rightarrow> string \<Rightarrow> 'p \<Rightarrow> (error + pool_user) \<times> 'p" where
  "AWSClient_GetUser c username p =
     (if username = '''' then (Inl (Errorf ''username cannot be empty''), p)
      else case AdminGetUser (cognito c) (userPoolID c) username p of
             (Inl err, p1) \<Rightarrow> (Inl (Wrapf (''failed to get user '' @ username) err), p1)
           | (Inr output, p1) \<Rightarrow>
               (let found = \<lparr>Username = username, Email = '''',
                              Enabled = Out_Enabled output, Sub = username\<rparr>
                in (Inr (case firstAttribute ''email'' (Out_UserAttributes output) of
                           None \<Rightarrow> found
                         | Some v \<Rightarrow> found\<lparr>Email := v\<rparr>), p1)))"

definition AWSClient_CreateUser ::
  "'p aws_client \<Rightarrow> pool_user \<Rightarrow> 'p \<Rightarrow> (error + pool_user) \<times> 'p" where
  "AWSClient_CreateUser c pu p =
     (if Email pu = '''' then (Inl (Errorf ''email cannot be empty''), p)
      else
        (let attributes = [\<lparr>AttrName = Some ''email'', AttrValue = Some (Email pu)\<rparr>,
                           \<lparr>AttrName = Some ''email_verified'', AttrValue = Some ''true''\<rparr>];
             input = \<lparr>In_UserPoolId = userPoolID c, In_Username = Email pu,
                      In_UserAttributes = attributes, In_MessageAction = ''SUPPRESS''\<rparr>
         in case AdminCreateUser (cognito c) input p of
              (Inl err, p1) \<Rightarrow>
                if asUsernameExistsException err then AWSClient_GetUser c (Email pu) p1
                else (Inl (Wrapf (''failed to create user '' @ Email pu) err), p1)
            | (Inr resp, p1) \<Rightarrow>
                (let createdUser = \<lparr>Username = Username pu, Email = Email pu,
                                      Enabled = Enabled pu, Sub = Email pu\<rparr>
                 in (Inr (case Out_User resp of
                            None \<Rightarrow> createdUser
                          | Some attrs \<Rightarrow>
                              (case firstAttribute ''sub'' attrs of
                                 None \<Rightarrow> createdUser
                               | Some v \<Rightarrow> createdUser\<lparr>Sub := v\<rparr>)), p1))))"

definition AWSClient_UpdateUser ::
  "'p aws_client \<Rightarrow> pool_user \<Rightarrow> 'p \<Rightarrow> error option \<times> 'p" where
  "AWSClient_UpdateUser c pu p =
     (if Username pu = '''' then (Some (Errorf ''username cannot be empty''), p)
      else
        (let attributes = [\<lparr>AttrName = Some ''email'', AttrValue = Some (Email pu)\<rparr>]
         in case AdminUpdateUserAttributes (cognito c) (userPoolID c) (Username pu)
                   attributes p of
              (Some err, p1) \<Rightarrow>
                (Some (Wrapf (''failed to update user attributes for '' @ Username pu) err), p1)
            | (None, p1) \<Rightarrow>
                if Enabled pu
                then (case AdminEnableUser (cognito c) (userPoolID c) (Username pu) p1 of
                        (Some err, p2) \<Rightarrow>
                          (Some (Wrapf (''failed to enable user '' @ Username pu) err), p2)
                      | (None, p2) \<Rightarrow> (None, p2))
                else (case AdminDisableUser (cognito c) (userPoolID c) (Username pu) p1 of
                        (Some err, p2) \<Rightarrow>
                          (Some (Wrapf (''failed to disable user '' @ Username pu) err), p2)
                      | (None, p2) \<Rightarrow> (None, p2))))"

definition AWSClient_DeleteUser ::
  "'p aws_client \<Rightarrow> string \<Rightarrow> 'p \<Rightarrow> error option \<times> 'p" where
  "AWSClient_DeleteUser c username p =
     (if username = '''' then (Some (Errorf ''username cannot be empty''), p)
      else case AdminDeleteUser (cognito c) (userPoolID c) username p of
             (Some err, p1) \<Rightarrow>
               if asUserNotFoundException err then (None, p1)
               else (Some (Wrapf (''failed to delete user '' @ username) err), p1)
           | (None, p1) \<Rightarrow> (None, p1))"

text \<open>\<open>AWSClient\<close> as a \<open>userpool.Client\<close>.\<close>

definition AWSClient :: "'p aws_client \<Rightarrow> 'p client" where
  "AWSClient c =
     \<lparr>GetUser = AWSClient_GetUser c, CreateUser = AWSClient_CreateUser c,
      UpdateUser = AWSClient_UpdateUser c, DeleteUser = AWSClient_DeleteUser c\<rparr>"

section \<open>The mock client\<close>

text \<open>\<open>MockClient\<close>: its state is the map \<open>users\<close>, from username to account.\<close>

type_synonym mock_users = "string \<rightharpoonup> pool_user"

definition MockClient_CreateUser ::
  "pool_user \<Rightarrow> mock_users \<Rightarrow> (error + pool_user) \<times> mock_users" where
  "MockClient_CreateUser pu users =
     (if Username pu = '''' then (Inl (Errorf ''username cannot be empty''), users)
      else case users (Username pu) of
             Some existingUser \<Rightarrow> (Inr existingUser, users)
           | None \<Rightarrow>
               (let createdUser = \<lparr>Username = Username pu, Email = Email pu,
                                     Enabled = Enabled pu, Sub = Username pu\<rparr>
                in (Inr createdUser, users(Username pu \<mapsto> createdUser))))"

definition MockClient_GetUser ::
  "string \<Rightarrow> mock_users \<Rightarrow> (error + pool_user) \<times> mock_users" where
  "MockClient_GetUser username users =
     (if username = '''' then (Inl (Errorf ''username cannot be empty''), users)
      else case users username of
             None \<Rightarrow> (Inl (Errorf (''user '' @ username @ '' not found'')), users)
           | Some found \<Rightarrow>
               (Inr \<lparr>Username = Username found, Email = Email found,
                     Enabled = Enabled found, Sub = Sub found\<rparr>, users))"

definition MockClient_UpdateUser ::
  "pool_user \<Rightarrow> mock_users \<Rightarrow> error option \<times> mock_users" where
  "MockClient_UpdateUser pu users =
     (if Username pu = '''' then (Some (Errorf ''username cannot be empty''), users)
      else case users (Username pu) of
             None \<Rightarrow> (Some (Errorf (''user '' @ Username pu @ '' not found'')), users)
           | Some found \<Rightarrow>
               (None, users(Username pu \<mapsto>
                  \<lparr>Username = Username pu, Email = Email pu,
                   Enabled = Enabled pu, Sub = ''''\<rparr>)))"

definition MockClient_DeleteUser ::
  "string \<Rightarrow> mock_users \<Rightarrow> error option \<times> mock_users" where
  "MockClient_DeleteUser username users =
     (if username = '''' then (Some (Errorf ''username cannot be empty''), users)
      else case users username of
             None \<Rightarrow> (Some (Errorf (''user '' @ username @ '' not found'')), users)
           | Some found \<Rightarrow> (None, users(username := None)))"

definition MockClient :: "mock_users client" where
  "MockClient =
     \<lparr>GetUser = MockClient_GetUser, CreateUser = MockClient_CreateUser,
      UpdateUser = MockClient_UpdateUser, DeleteUser = MockClient_DeleteUser\<rparr>"

section \<open>Reading a trace\<close>

text \<open>Which calls change the user pool, and which go to the user pool at all.\<close>

fun isMutation :: "event \<Rightarrow> bool" where
  "isMutation (CreateUserCall pu) = True"
| "isMutation (UpdateUserCall pu) = True"
| "isMutation (DeleteUserCall ident) = True"
| "isMutation (GetUserCall ident) = False"
| "isMutation (KubeUpdateCall u ok) = False"
| "isMutation (KubeStatusUpdateCall u ok) = False"

fun isDirectoryCall :: "event \<Rightarrow> bool" where
  "isDirectoryCall (KubeUpdateCall u ok) = False"
| "isDirectoryCall (KubeStatusUpdateCall u ok) = False"
| "isDirectoryCall e = True"

fun isGetUserCall :: "event \<Rightarrow> bool" where
  "isGetUserCall (GetUserCall ident) = True"
| "isGetUserCall e = False"

fun isCreateUserCall :: "event \<Rightarrow> bool" where
  "isCreateUserCall (CreateUserCall pu) = True"
| "isCreateUserCall e = False"

fun isUpdateUserCall :: "event \<Rightarrow> bool" where
  "isUpdateUserCall (UpdateUserCall pu) = True"
| "isUpdateUserCall e = False"

text \<open>A write the object store accepted, of an object that carries the cleanup
  finalizer: from then on the finalizer is durable.\<close>

fun persistsFinalizer :: "event \<Rightarrow> bool" where
  "persistsFinalizer (KubeUpdateCall u ok) =
     (ok \<and> containsFinalizer (Finalizers u) finalizerName)"
| "persistsFinalizer e = False"

text \<open>
  The monitor of the finalizer-first rule: walking the events, \<open>durable\<close> says whether the
  finalizer is in the object store so far, and a call that changes the user pool is
  allowed only when it is.
\<close>

fun finalizerFirst :: "bool \<Rightarrow> event list \<Rightarrow> bool" where
  "finalizerFirst durable [] = True"
| "finalizerFirst durable (e # es) =
     ((if isMutation e then durable else True)
      \<and> finalizerFirst (durable \<or> persistsFinalizer e) es)"

text \<open>An event that leaves the status as it was: no write of the status, and a write of
  the object only with the status \<open>st\<close>.\<close>

fun statusUntouched :: "user_status \<Rightarrow> event \<Rightarrow> bool" where
  "statusUntouched st (KubeUpdateCall u ok) = (Status u = st)"
| "statusUntouched st (KubeStatusUpdateCall u ok) = False"
| "statusUntouched st e = True"

text \<open>
  Two expressions of \<open>syncUserWithUserPool\<close> by name: the identifier it passes to
  \<open>GetUser\<close> (the two branches of its first \<open>if\<close>) and the account \<open>poolUser\<close> it builds
  from the object.
\<close>

definition lookupIdentifier :: "user \<Rightarrow> string" where
  "lookupIdentifier u =
     (if Status_Sub (Status u) \<noteq> '''' then Status_Sub (Status u) else Spec_Email (Spec u))"

definition desiredPoolUser :: "user \<Rightarrow> pool_user" where
  "desiredPoolUser u =
     \<lparr>Username = Name u, Email = Spec_Email (Spec u), Enabled = Spec_Enabled (Spec u),
      Sub = ''''\<rparr>"

text \<open>
  The lookup identifier in the specification's words, to compare with the code's: the
  stored subject id, else the spec email, else the local name.
\<close>

definition specLookupIdentifier :: "user \<Rightarrow> string" where
  "specLookupIdentifier u =
     (if Status_Sub (Status u) \<noteq> '''' then Status_Sub (Status u)
      else if Spec_Email (Spec u) \<noteq> '''' then Spec_Email (Spec u)
      else Name u)"

section \<open>Scenarios\<close>

text \<open>
  Scripted collaborators, as the repository's tests set them up with
  \<open>On(...).Return(...)\<close>: every call gets the scripted answer, and there is no state.
\<close>

definition stubClient ::
  "(string \<Rightarrow> error + pool_user) \<Rightarrow> (pool_user \<Rightarrow> error + pool_user)
     \<Rightarrow> (pool_user \<Rightarrow> error option) \<Rightarrow> (string \<Rightarrow> error option) \<Rightarrow> unit client" where
  "stubClient onGet onCreate onUpdate onDelete =
     \<lparr>GetUser = (\<lambda>ident p. (onGet ident, p)), CreateUser = (\<lambda>pu p. (onCreate pu, p)),
      UpdateUser = (\<lambda>pu p. (onUpdate pu, p)), DeleteUser = (\<lambda>ident p. (onDelete ident, p))\<rparr>"

definition stubManager ::
  "fetch \<Rightarrow> (user \<Rightarrow> error option) \<Rightarrow> (user \<Rightarrow> error option) \<Rightarrow> unit manager" where
  "stubManager fetched onUpdate onStatusUpdate =
     \<lparr>GetCluster = (\<lambda>cluster. None), KubeGet = (\<lambda>req k. fetched),
      KubeUpdate = (\<lambda>req u k. (onUpdate u, k)),
      KubeStatusUpdate = (\<lambda>req u k. (onStatusUpdate u, k))\<rparr>"

definition stubReconciler :: "fetch \<Rightarrow> 'p client option \<Rightarrow> (unit, 'p) reconciler" where
  "stubReconciler fetched c =
     \<lparr>Manager = stubManager fetched (\<lambda>u. None) (\<lambda>u. None),
      UserPoolClient = c, MetaNow = 1700000000,
      TimeNowRFC3339 = ''2023-11-14T22:13:20Z''\<rparr>"

definition stubCognito ::
  "(string \<Rightarrow> error + admin_get_user_output)
     \<Rightarrow> (admin_create_user_input \<Rightarrow> error + admin_create_user_output)
     \<Rightarrow> (string \<Rightarrow> error option) \<Rightarrow> unit cognito_api" where
  "stubCognito onGet onCreate onDelete =
     \<lparr>AdminCreateUser = (\<lambda>input p. (onCreate input, p)),
      AdminGetUser = (\<lambda>poolId username p. (onGet username, p)),
      AdminUpdateUserAttributes = (\<lambda>poolId username attrs p. (None, p)),
      AdminEnableUser = (\<lambda>poolId username p. (None, p)),
      AdminDisableUser = (\<lambda>poolId username p. (None, p)),
      AdminDeleteUser = (\<lambda>poolId username p. (onDelete username, p))\<rparr>"

text \<open>The user of the specification's scenarios, freshly created by its owner.\<close>

definition alice :: user where
  "alice = \<lparr>Name = ''alice'', Finalizers = [], DeletionTimestamp = None, Annotations = [],
            Spec = \<lparr>Spec_Email = ''a@x.com'', Spec_Enabled = True\<rparr>,
            Status = \<lparr>Status_Sub = '''', UserPoolStatus = '''', LastSyncTime = None,
                      ObservedGeneration = 0, Conditions = []\<rparr>\<rparr>"

definition aliceRequest :: request where
  "aliceRequest = \<lparr>ClusterName = ''cluster1'', Namespace = ''default'', ReqName = ''alice''\<rparr>"

definition emptyWorld :: "(unit, unit) world" where
  "emptyWorld = \<lparr>kube = (), pool = (), trace = []\<rparr>"

text \<open>A world whose user pool is the mock client's, with no account.\<close>

definition emptyPool :: "(unit, mock_users) world" where
  "emptyPool = \<lparr>kube = (), pool = Map.empty, trace = []\<rparr>"

text \<open>Alice after an earlier successful sync, and then with deletion requested.\<close>

definition aliceWithSub :: user where
  "aliceWithSub = alice\<lparr>Finalizers := [finalizerName],
     Status := (Status alice)\<lparr>Status_Sub := ''sub-1'', UserPoolStatus := ''CONFIRMED'',
                                LastSyncTime := Some 1600000000\<rparr>\<rparr>"

definition aliceDeleting :: user where
  "aliceDeleting = aliceWithSub\<lparr>DeletionTimestamp := Some 1700000000\<rparr>"

text \<open>Alice with neither a subject id nor an email.\<close>

definition aliceNoEmail :: user where
  "aliceNoEmail = alice\<lparr>Spec := \<lparr>Spec_Email = '''', Spec_Enabled = True\<rparr>\<rparr>"

text \<open>
  A Cognito pool that knows no user: get and delete report \<open>UserNotFoundException\<close>, and a
  create succeeds with the new user's \<open>sub\<close> attribute.
\<close>

definition emptyCognito :: "unit aws_client" where
  "emptyCognito =
     \<lparr>cognito = stubCognito (\<lambda>username. Inl (UserNotFoundException ''User does not exist.''))
        (\<lambda>input. Inr \<lparr>Out_User = Some [\<lparr>AttrName = Some ''sub'', AttrValue = Some ''sub-2''\<rparr>]\<rparr>)
        (\<lambda>username. Some (UserNotFoundException ''User does not exist.'')),
      userPoolID = ''us-west-2_example''\<rparr>"

text \<open>A Cognito pool that holds Alice's account, with a provider-issued \<open>sub\<close> attribute.\<close>

definition cognitoWithAlice :: "unit aws_client" where
  "cognitoWithAlice =
     \<lparr>cognito = stubCognito
        (\<lambda>username. Inr \<lparr>Out_Enabled = True, Out_UserAttributes =
            [\<lparr>AttrName = Some ''sub'', AttrValue = Some ''3f1c-uuid''\<rparr>,
             \<lparr>AttrName = Some ''email'', AttrValue = Some ''a@x.com''\<rparr>]\<rparr>)
        (\<lambda>input. Inl (UsernameExistsException ''User account already exists''))
        (\<lambda>username. None),
      userPoolID = ''us-west-2_example''\<rparr>"

text \<open>User pool clients scripted as in the controller's tests.\<close>

definition deleteFailsClient :: "unit client" where
  "deleteFailsClient =
     stubClient (\<lambda>ident. Inr \<lparr>Username = ''alice'', Email = ''a@x.com'', Enabled = True,
                                Sub = ''sub-1''\<rparr>)
       (\<lambda>pu. Inl (Errorf ''creation failed''))
       (\<lambda>pu. Some (Errorf ''update failed''))
       (\<lambda>ident. Some (Errorf ''delete failed''))"

definition createFailsClient :: "unit client" where
  "createFailsClient =
     stubClient (\<lambda>ident. Inl (Errorf ''user not found''))
       (\<lambda>pu. Inl (Errorf ''creation failed''))
       (\<lambda>pu. None) (\<lambda>ident. None)"

definition createSucceedsClient :: "unit client" where
  "createSucceedsClient =
     stubClient (\<lambda>ident. Inl (Errorf ''user not found''))
       (\<lambda>pu. Inr (pu\<lparr>Sub := ''sub-1''\<rparr>))
       (\<lambda>pu. None) (\<lambda>ident. None)"

definition staleEmailClient :: "unit client" where
  "staleEmailClient =
     stubClient (\<lambda>ident. Inr \<lparr>Username = ''alice'', Email = ''old@x.com'', Enabled = True,
                                Sub = ''sub-1''\<rparr>)
       (\<lambda>pu. Inl (Errorf ''creation failed''))
       (\<lambda>pu. None) (\<lambda>ident. None)"

section \<open>Unfolding sets\<close>

lemmas pass_defs = Reconcile_def syncUserWithUserPool_def deleteUserFromUserPool_def
  callGetUser_def callCreateUser_def callUpdateUser_def callDeleteUser_def
  callKubeUpdate_def callKubeStatusUpdate_def removeFinalizer_def emptyResult_def Let_def

lemmas stub_defs = stubClient_def stubManager_def stubReconciler_def stubCognito_def
  alice_def aliceRequest_def emptyWorld_def emptyPool_def lookupIdentifier_def
  desiredPoolUser_def

lemmas mock_defs = MockClient_def MockClient_GetUser_def MockClient_CreateUser_def
  MockClient_UpdateUser_def MockClient_DeleteUser_def

lemmas aws_defs = AWSClient_def AWSClient_GetUser_def AWSClient_CreateUser_def
  AWSClient_UpdateUser_def AWSClient_DeleteUser_def

section \<open>The finalizer functions\<close>

lemma removeFinalizerLoop_filter:
  "removeFinalizerLoop fs m acc = acc @ filter (\<lambda>f. f \<noteq> m) fs"
  by (induction fs arbitrary: acc) simp_all

lemma removeFinalizer_filter:
  "removeFinalizer fs m = filter (\<lambda>f. f \<noteq> m) fs"
  by (simp add: removeFinalizer_def removeFinalizerLoop_filter)

lemma containsFinalizer_set:
  "containsFinalizer fs m \<longleftrightarrow> m \<in> set fs"
  by (induction fs) auto

lemma addFinalizer_absent:
  "\<not> containsFinalizer fs m \<Longrightarrow> addFinalizer fs m = fs @ [m]"
  by (simp add: addFinalizer_def)

lemma addFinalizer_present:
  "containsFinalizer fs m \<Longrightarrow> addFinalizer fs m = fs"
  by (simp add: addFinalizer_def)

lemma finalizerFirst_True [simp]: "finalizerFirst True es"
  by (induction es) simp_all

section \<open>The calls of a pass\<close>

text \<open>\<open>syncUserWithUserPool\<close> with its two lookups merged into one call.\<close>

lemma sync_get_first:
  "syncUserWithUserPool c now u w =
     (case callGetUser c (lookupIdentifier u) w of
        (Inl err, w1) \<Rightarrow>
          (case callCreateUser c (desiredPoolUser u) w1 of
             (Inl err', w2) \<Rightarrow>
               ((Some (Wrapf ''failed to create user in user pool'' err'), u), w2)
           | (Inr createdUser, w2) \<Rightarrow>
               ((None, u\<lparr>Status := (Status u)\<lparr>Status_Sub := Sub createdUser,
                                               UserPoolStatus := ''CONFIRMED'',
                                               LastSyncTime := Some now\<rparr>\<rparr>), w2))
      | (Inr existingUser, w1) \<Rightarrow>
          (if Email existingUser \<noteq> Spec_Email (Spec u)
              \<or> Enabled existingUser \<noteq> Spec_Enabled (Spec u)
           then (case callUpdateUser c (desiredPoolUser u) w1 of
                   (Some err', w2) \<Rightarrow>
                     ((Some (Wrapf ''failed to update user in user pool'' err'), u), w2)
                 | (None, w2) \<Rightarrow>
                     ((None, u\<lparr>Status := (Status u)\<lparr>LastSyncTime := Some now,
                         Status_Sub := (if Status_Sub (Status u) = '''' then Sub existingUser
                                        else Status_Sub (Status u))\<rparr>\<rparr>), w2))
           else ((None, u\<lparr>Status := (Status u)\<lparr>LastSyncTime := Some now,
                         Status_Sub := (if Status_Sub (Status u) = '''' then Sub existingUser
                                        else Status_Sub (Status u))\<rparr>\<rparr>), w1)))"
  by (cases "Status_Sub (Status u) = []")
     (simp_all add: syncUserWithUserPool_def lookupIdentifier_def desiredPoolUser_def Let_def
        split: prod.split sum.split option.split)

text \<open>The events of a sync pass: one get, then one create or at most one update.\<close>

lemma sync_events:
  "trace (snd (syncUserWithUserPool c now u w)) =
     trace w @ GetUserCall (lookupIdentifier u) #
       (case fst (GetUser c (lookupIdentifier u) (pool w)) of
          Inl err \<Rightarrow> [CreateUserCall (desiredPoolUser u)]
        | Inr existingUser \<Rightarrow>
            if Email existingUser \<noteq> Spec_Email (Spec u)
               \<or> Enabled existingUser \<noteq> Spec_Enabled (Spec u)
            then [UpdateUserCall (desiredPoolUser u)] else [])"
proof (cases "GetUser c (lookupIdentifier u) (pool w)")
  case (Pair got p1)
  show ?thesis
  proof (cases got)
    case (Inl err)
    with Pair show ?thesis
      by (simp add: sync_get_first callGetUser_def callCreateUser_def
          split: prod.splits sum.splits)
  next
    case (Inr existingUser)
    with Pair show ?thesis
      by (simp add: sync_get_first callGetUser_def callUpdateUser_def
          split: prod.splits option.splits)
  qed
qed

lemma sync_trace:
  "\<exists>es. trace (snd (syncUserWithUserPool c now u w)) = trace w @ es
        \<and> list_all isDirectoryCall es"
  unfolding sync_events by (simp split: sum.splits)

lemma sync_kube:
  "kube (snd (syncUserWithUserPool c now u w)) = kube w"
  by (cases "GetUser c (lookupIdentifier u) (pool w)")
     (simp add: sync_get_first callGetUser_def callCreateUser_def callUpdateUser_def
        split: prod.splits sum.splits option.splits)

lemma delete_trace:
  "\<exists>es. trace (deleteUserFromUserPool c n s w) = trace w @ es \<and> list_all isDirectoryCall es"
  by (auto simp: deleteUserFromUserPool_def callGetUser_def callDeleteUser_def
      Let_def split: prod.splits sum.splits option.splits)

lemma delete_kube:
  "kube (deleteUserFromUserPool c n s w) = kube w"
  by (auto simp: deleteUserFromUserPool_def callGetUser_def callDeleteUser_def
      Let_def split: prod.splits sum.splits option.splits)

text \<open>
  The found branch of the sync pass keeps a subject id that is already set, and so do
  both error returns: only a successful create writes over it.
\<close>

lemma sync_keeps_sub_when_found:
  assumes "fst (GetUser c (lookupIdentifier u) (pool w)) = Inr existing"
    and "Status_Sub (Status u) \<noteq> ''''"
  shows "Status_Sub (Status (snd (fst (syncUserWithUserPool c now u w))))
           = Status_Sub (Status u)"
  using assms
  by (cases "GetUser c (lookupIdentifier u) (pool w)")
     (simp add: sync_get_first callGetUser_def callUpdateUser_def
        split: prod.splits option.splits)

lemma sync_error_keeps_user:
  assumes "fst (fst (syncUserWithUserPool c now u w)) \<noteq> None"
  shows "snd (fst (syncUserWithUserPool c now u w)) = u"
proof (cases "GetUser c (lookupIdentifier u) (pool w)")
  case (Pair got p1)
  show ?thesis
  proof (cases got)
    case (Inl err)
    with Pair assms show ?thesis
      by (simp add: sync_get_first callGetUser_def callCreateUser_def
          split: prod.splits sum.splits)
  next
    case (Inr existingUser)
    with Pair assms show ?thesis
      by (auto simp: sync_get_first callGetUser_def callUpdateUser_def
          split: prod.splits option.splits if_splits)
  qed
qed

section \<open>C1: a subject id, once set, is not replaced\<close>

text \<open>
  Claim C1. A reconciliation pass over a user whose \<open>status.sub\<close> is a non-empty string
  \<open>s\<close> never leaves \<open>status.sub\<close> equal to a non-empty string other than \<open>s\<close>; in
  particular the create branch of the sync pass, entered whenever the get call returns an
  error, never stores a new account's subject id over an existing one.

  The found branch keeps the subject id (\<open>sync_keeps_sub_when_found\<close>: its assignment is
  guarded by \<open>user.Status.Sub == ""\<close>), and an error return leaves the user alone
  (\<open>sync_error_keeps_user\<close>). The create branch assigns without the guard. Here the
  code is run where it breaks the claim: Alice carries \<open>sub-1\<close>, the Cognito pool no
  longer knows that name, so the AWS client's get fails, its create succeeds with the
  attribute \<open>sub = sub-2\<close>, and the sync pass returns no error and leaves \<open>sub-2\<close> in
  the status of the object that \<open>Reconcile\<close> goes on to write.
\<close>

theorem C1_create_branch_overwrites_sub:
  "Status_Sub (Status aliceWithSub) = ''sub-1''
   \<and> fst (GetUser (AWSClient emptyCognito) ''sub-1'' ())
       = Inl (Wrapf ''failed to get user sub-1''
               (UserNotFoundException ''User does not exist.''))
   \<and> fst (syncUserWithUserPool (AWSClient emptyCognito) 1700000000 aliceWithSub emptyWorld)
       = (None, aliceWithSub\<lparr>Status := (Status aliceWithSub)\<lparr>Status_Sub := ''sub-2'',
            UserPoolStatus := ''CONFIRMED'', LastSyncTime := Some 1700000000\<rparr>\<rparr>)
   \<and> Status_Sub (Status (snd (fst (syncUserWithUserPool (AWSClient emptyCognito) 1700000000
         aliceWithSub emptyWorld)))) = ''sub-2''
   \<and> trace (snd (syncUserWithUserPool (AWSClient emptyCognito) 1700000000 aliceWithSub
         emptyWorld))
       = [GetUserCall ''sub-1'', CreateUserCall (desiredPoolUser aliceWithSub)]"
  by (simp add: stub_defs pass_defs aws_defs emptyCognito_def aliceWithSub_def)

theorem C1_create_branch_overwrites_sub_witness:
  "Status_Sub (Status aliceWithSub) \<noteq> ''''
   \<and> Status_Sub (Status (snd (fst (syncUserWithUserPool (AWSClient emptyCognito) 1700000000
         aliceWithSub emptyWorld)))) \<noteq> ''''
   \<and> Status_Sub (Status (snd (fst (syncUserWithUserPool (AWSClient emptyCognito) 1700000000
         aliceWithSub emptyWorld)))) \<noteq> Status_Sub (Status aliceWithSub)"
  using C1_create_branch_overwrites_sub by simp

section \<open>C2: the finalizer is durable before the user pool is changed\<close>

text \<open>
  Claim C2. In a pass over a user whose deletion timestamp is nil, no call that changes
  the user pool (create, update, delete) is made before the cleanup finalizer
  \<open>kcp.cogniteo.io/user-pool-cleanup\<close> is in the object's finalizers and that object is in
  the object store; when the write that adds the finalizer fails, the pass returns
  without calling the user pool client.

  The events of the pass satisfy the monitor \<open>finalizerFirst\<close>, started with whether the
  fetched object (which is what the store holds) already carries the finalizer. When it
  does not, the first event of the pass is the write of the object with the finalizer
  appended, and when the store refuses that write the pass ends there: its error is the
  store's, that write is its only event, and the user pool is as it was.
\<close>

theorem C2_finalizer_durable_before_mutation:
  assumes cl: "GetCluster (Manager r) (ClusterName req) = None"
    and got: "KubeGet (Manager r) req (kube w) = Fetched u"
    and live: "DeletionTimestamp u = None"
  shows "(\<exists>es. trace (snd (Reconcile r req w)) = trace w @ es
              \<and> finalizerFirst (containsFinalizer (Finalizers u) finalizerName) es)
       \<and> (\<not> containsFinalizer (Finalizers u) finalizerName \<longrightarrow>
            (let u1 = u\<lparr>Finalizers := Finalizers u @ [finalizerName]\<rparr>;
                 answer = KubeUpdate (Manager r) req u1 (kube w)
             in (\<exists>es. trace (snd (Reconcile r req w))
                         = trace w @ KubeUpdateCall u1 (fst answer = None) # es)
                \<and> (\<forall>err. fst answer = Some err \<longrightarrow>
                      Reconcile r req w =
                        ((emptyResult, Some err),
                         w\<lparr>kube := snd answer,
                           trace := trace w @ [KubeUpdateCall u1 False]\<rparr>))))"
proof -
  define cont where "cont = (\<lambda>user1 (w1 :: ('a, 'b) world).
     (case (case UserPoolClient r of
              None \<Rightarrow> ((None, user1), w1)
            | Some c \<Rightarrow> syncUserWithUserPool c (MetaNow r) user1 w1) of
        ((Some err, user2), w2) \<Rightarrow>
          ((\<lparr>Requeue = False, RequeueAfter = Minute * 5\<rparr>, Some err), w2)
      | ((None, user2), w2) \<Rightarrow>
          (let user3 = user2\<lparr>Annotations :=
                 AList.update ''kcp.cogniteo.io/lastReconciledAt''
                   (TimeNowRFC3339 r) (Annotations user2)\<rparr>
           in case callKubeUpdate (Manager r) req user3 w2 of
                (Some err, w3) \<Rightarrow> ((emptyResult, Some err), w3)
              | (None, w3) \<Rightarrow>
                  (case callKubeStatusUpdate (Manager r) req user3 w3 of
                     (Some err, w4) \<Rightarrow> ((emptyResult, Some err), w4)
                   | (None, w4) \<Rightarrow> ((emptyResult, None), w4)))))"
  have cont_trace: "\<exists>es. trace (snd (cont user1 w1)) = trace w1 @ es" for user1 w1
  proof (cases "UserPoolClient r")
    case None
    then show ?thesis
      by (auto simp: cont_def callKubeUpdate_def callKubeStatusUpdate_def Let_def
          split: prod.splits option.splits)
  next
    case (Some c)
    obtain es1 where
      "trace (snd (syncUserWithUserPool c (MetaNow r) user1 w1)) = trace w1 @ es1"
      using sync_trace by blast
    with Some show ?thesis
      by (auto simp: cont_def callKubeUpdate_def callKubeStatusUpdate_def Let_def
          split: prod.splits option.splits)
  qed
  show ?thesis
  proof (cases "containsFinalizer (Finalizers u) finalizerName")
    case True
    have "Reconcile r req w = cont u w"
      using cl got live True by (simp add: Reconcile_def cont_def)
    with cont_trace [of u w] True show ?thesis by auto
  next
    case False
    define u1 where "u1 = u\<lparr>Finalizers := Finalizers u @ [finalizerName]\<rparr>"
    define answer where "answer = KubeUpdate (Manager r) req u1 (kube w)"
    define w1 where "w1 = w\<lparr>kube := snd answer,
        trace := trace w @ [KubeUpdateCall u1 (fst answer = None)]\<rparr>"
    have call: "callKubeUpdate (Manager r) req u1 w = (fst answer, w1)"
      by (simp add: callKubeUpdate_def answer_def w1_def split: prod.splits)
    have holds: "containsFinalizer (Finalizers u1) finalizerName"
      by (simp add: u1_def containsFinalizer_set)
    show ?thesis
    proof (cases "fst answer")
      case None
      have rec: "Reconcile r req w = cont u1 w1"
        using cl got live False call None
        by (simp add: Reconcile_def cont_def u1_def Let_def)
      obtain es where es: "trace (snd (cont u1 w1)) = trace w1 @ es"
        using cont_trace by blast
      have tr: "trace (snd (Reconcile r req w)) = trace w @ KubeUpdateCall u1 True # es"
        using rec es None by (simp add: w1_def)
      have mon: "finalizerFirst False (KubeUpdateCall u1 True # es)"
        using holds by simp
      from tr mon False None show ?thesis
        unfolding Let_def u1_def [symmetric] answer_def [symmetric] by auto
    next
      case (Some err)
      have rec: "Reconcile r req w = ((emptyResult, Some err), w1)"
        using cl got live False call Some
        by (simp add: Reconcile_def u1_def Let_def)
      have tr: "trace (snd (Reconcile r req w)) = trace w @ [KubeUpdateCall u1 False]"
        using rec Some by (simp add: w1_def)
      from rec tr False Some show ?thesis
        unfolding Let_def u1_def [symmetric] answer_def [symmetric]
        by (auto simp: w1_def)
    qed
  qed
qed

text \<open>Alice, new and without the finalizer, against the mock client's empty pool: the
  finalizer write, the get, the create, the object write and the status write.\<close>

theorem C2_finalizer_durable_before_mutation_witness:
  "GetCluster (Manager (stubReconciler (Fetched alice) (Some MockClient)))
      (ClusterName aliceRequest) = None
   \<and> KubeGet (Manager (stubReconciler (Fetched alice) (Some MockClient))) aliceRequest
        (kube emptyPool) = Fetched alice
   \<and> DeletionTimestamp alice = None
   \<and> \<not> containsFinalizer (Finalizers alice) finalizerName
   \<and> map isMutation (trace (snd (Reconcile (stubReconciler (Fetched alice) (Some MockClient))
         aliceRequest emptyPool))) = [False, False, True, False, False]
   \<and> finalizerFirst False
         (trace (snd (Reconcile (stubReconciler (Fetched alice) (Some MockClient))
            aliceRequest emptyPool)))"
proof -
  have h1: "GetCluster (Manager (stubReconciler (Fetched alice) (Some MockClient)))
      (ClusterName aliceRequest) = None"
    by (simp add: stub_defs)
  have h2: "KubeGet (Manager (stubReconciler (Fetched alice) (Some MockClient))) aliceRequest
        (kube emptyPool) = Fetched alice"
    by (simp add: stub_defs)
  have h3: "DeletionTimestamp alice = None"
    by (simp add: alice_def)
  have h4: "\<not> containsFinalizer (Finalizers alice) finalizerName"
    by (simp add: alice_def)
  have tr: "trace emptyPool = []"
    by (simp add: emptyPool_def)
  have ev: "map isMutation (trace (snd (Reconcile (stubReconciler (Fetched alice)
      (Some MockClient)) aliceRequest emptyPool))) = [False, False, True, False, False]"
    by (simp add: stub_defs mock_defs pass_defs)
  from C2_finalizer_durable_before_mutation [OF h1 h2 h3] h4 tr
  have "finalizerFirst False
         (trace (snd (Reconcile (stubReconciler (Fetched alice) (Some MockClient))
            aliceRequest emptyPool)))"
    by auto
  with h1 h2 h3 h4 ev show ?thesis by blast
qed

section \<open>C3: deletion is never blocked by the user pool\<close>

text \<open>
  Claim C3. For every user fetched with a deletion timestamp, and whatever the user pool
  client does (none configured, get reporting not found, get or delete returning any
  error), \<open>Reconcile\<close> removes the cleanup finalizer from the object and returns no error
  that comes from the user pool client: the only error of this path is that of the write
  to the object store that persists the removal.

  The pass writes the fetched object without the finalizer, as its last event and after
  user pool calls only; its result is the empty result with exactly the answer of the
  object store to that write.
\<close>

theorem C3_deletion_swallows_directory_errors:
  assumes cl: "GetCluster (Manager r) (ClusterName req) = None"
    and got: "KubeGet (Manager r) req (kube w) = Fetched u"
    and del: "DeletionTimestamp u \<noteq> None"
  shows "let u' = u\<lparr>Finalizers := removeFinalizer (Finalizers u) finalizerName\<rparr>;
             answer = fst (KubeUpdate (Manager r) req u' (kube w))
         in \<not> containsFinalizer (Finalizers u') finalizerName
            \<and> fst (Reconcile r req w) = (emptyResult, answer)
            \<and> (\<exists>es. trace (snd (Reconcile r req w))
                        = trace w @ es @ [KubeUpdateCall u' (answer = None)]
                      \<and> list_all isDirectoryCall es)"
proof -
  define u' where "u' = u\<lparr>Finalizers := removeFinalizer (Finalizers u) finalizerName\<rparr>"
  define w1 where "w1 = (case UserPoolClient r of None \<Rightarrow> w
     | Some c \<Rightarrow> deleteUserFromUserPool c (Name u) (Status_Sub (Status u)) w)"
  have gone: "\<not> containsFinalizer (Finalizers u') finalizerName"
    by (simp add: u'_def containsFinalizer_set removeFinalizer_filter)
  have k1: "kube w1 = kube w"
    by (simp add: w1_def delete_kube split: option.splits)
  obtain es where es: "trace w1 = trace w @ es" "list_all isDirectoryCall es"
  proof (cases "UserPoolClient r")
    case None
    then have "trace w1 = trace w @ []" by (simp add: w1_def)
    then show ?thesis using that [of "[]"] by simp
  next
    case (Some c)
    then show ?thesis using that delete_trace [of c "Name u" "Status_Sub (Status u)" w]
      by (auto simp: w1_def)
  qed
  have rec: "Reconcile r req w =
      (case callKubeUpdate (Manager r) req u' w1 of
         (Some err, w2) \<Rightarrow> ((emptyResult, Some err), w2)
       | (None, w2) \<Rightarrow> ((emptyResult, None), w2))"
    using cl got del by (simp add: Reconcile_def Let_def u'_def w1_def)
  have res: "fst (Reconcile r req w)
      = (emptyResult, fst (KubeUpdate (Manager r) req u' (kube w)))"
    by (simp add: rec callKubeUpdate_def k1 split: prod.splits option.splits)
  have tr: "trace (snd (Reconcile r req w))
      = trace w @ es @ [KubeUpdateCall u' (fst (KubeUpdate (Manager r) req u' (kube w)) = None)]"
    by (simp add: rec callKubeUpdate_def k1 es split: prod.splits option.splits)
  from gone res tr es(2) show ?thesis
    unfolding Let_def u'_def [symmetric] by blast
qed

text \<open>Alice with deletion requested, and a user pool whose delete fails: the finalizer is
  removed and the pass returns no error.\<close>

theorem C3_deletion_swallows_directory_errors_witness:
  "GetCluster (Manager (stubReconciler (Fetched aliceDeleting) (Some deleteFailsClient)))
      (ClusterName aliceRequest) = None
   \<and> KubeGet (Manager (stubReconciler (Fetched aliceDeleting) (Some deleteFailsClient)))
        aliceRequest (kube emptyWorld) = Fetched aliceDeleting
   \<and> DeletionTimestamp aliceDeleting \<noteq> None
   \<and> containsFinalizer (Finalizers aliceDeleting) finalizerName
   \<and> fst (Reconcile (stubReconciler (Fetched aliceDeleting) (Some deleteFailsClient))
         aliceRequest emptyWorld) = (emptyResult, None)
   \<and> trace (snd (Reconcile (stubReconciler (Fetched aliceDeleting) (Some deleteFailsClient))
         aliceRequest emptyWorld))
       = [GetUserCall ''sub-1'', DeleteUserCall ''sub-1'',
          KubeUpdateCall (aliceDeleting\<lparr>Finalizers := []\<rparr>) True]"
proof -
  note defs = stub_defs deleteFailsClient_def aliceDeleting_def aliceWithSub_def
  have h1: "GetCluster (Manager (stubReconciler (Fetched aliceDeleting)
      (Some deleteFailsClient))) (ClusterName aliceRequest) = None"
    by (simp add: defs)
  have h2: "KubeGet (Manager (stubReconciler (Fetched aliceDeleting) (Some deleteFailsClient)))
        aliceRequest (kube emptyWorld) = Fetched aliceDeleting"
    by (simp add: defs)
  have h3: "DeletionTimestamp aliceDeleting \<noteq> None"
    by (simp add: defs)
  have h4: "containsFinalizer (Finalizers aliceDeleting) finalizerName"
    by (simp add: defs)
  have ans: "fst (KubeUpdate (Manager (stubReconciler (Fetched aliceDeleting)
        (Some deleteFailsClient))) aliceRequest
        (aliceDeleting\<lparr>Finalizers := removeFinalizer (Finalizers aliceDeleting) finalizerName\<rparr>)
        (kube emptyWorld)) = None"
    by (simp add: defs)
  have res: "fst (Reconcile (stubReconciler (Fetched aliceDeleting) (Some deleteFailsClient))
         aliceRequest emptyWorld) = (emptyResult, None)"
    using C3_deletion_swallows_directory_errors [OF h1 h2 h3] ans by (simp add: Let_def)
  have tr: "trace (snd (Reconcile (stubReconciler (Fetched aliceDeleting)
      (Some deleteFailsClient)) aliceRequest emptyWorld))
       = [GetUserCall ''sub-1'', DeleteUserCall ''sub-1'',
          KubeUpdateCall (aliceDeleting\<lparr>Finalizers := []\<rparr>) True]"
    by (simp add: defs pass_defs)
  from h1 h2 h3 h4 res tr show ?thesis by blast
qed

section \<open>C4: the identifier of the lookup\<close>

text \<open>
  Claim C4. The sync pass calls get with the stored subject id when it is non-empty,
  otherwise with the spec email, otherwise with the object's local name; in particular a
  user with empty \<open>status.sub\<close> and empty spec email is looked up by its local name.

  The code has the first two steps and not the third: its \<open>else\<close> branch passes the spec
  email whatever it is. Amended: the sync pass makes exactly one get call, with the stored
  subject id when that is non-empty and with the spec email otherwise; this is the
  specification's identifier unless both are empty, and then the lookup is made with the
  empty string. The local name is never the identifier of the lookup.
\<close>

theorem C4_lookup_identifier:
  "(\<exists>es. trace (snd (syncUserWithUserPool c now u w))
            = trace w @ GetUserCall (lookupIdentifier u) # es
          \<and> filter isGetUserCall es = [])
   \<and> lookupIdentifier u =
       (if Status_Sub (Status u) = '''' \<and> Spec_Email (Spec u) = '''' then ''''
        else specLookupIdentifier u)"
proof -
  have "lookupIdentifier u =
       (if Status_Sub (Status u) = '''' \<and> Spec_Email (Spec u) = '''' then ''''
        else specLookupIdentifier u)"
    by (simp add: lookupIdentifier_def specLookupIdentifier_def)
  moreover have "\<exists>es. trace (snd (syncUserWithUserPool c now u w))
            = trace w @ GetUserCall (lookupIdentifier u) # es
          \<and> filter isGetUserCall es = []"
    unfolding sync_events by (simp split: sum.splits)
  ultimately show ?thesis by blast
qed

theorem C4_lookup_identifier_witness:
  "trace (snd (syncUserWithUserPool MockClient 1700000000 alice emptyPool))
     = [GetUserCall ''a@x.com'', CreateUserCall (desiredPoolUser alice)]
   \<and> lookupIdentifier alice = ''a@x.com''
   \<and> lookupIdentifier aliceWithSub = ''sub-1''
   \<and> lookupIdentifier aliceNoEmail = ''''"
proof -
  have ev: "trace (snd (syncUserWithUserPool MockClient 1700000000 alice emptyPool))
     = [GetUserCall ''a@x.com'', CreateUserCall (desiredPoolUser alice)]"
    by (simp add: stub_defs mock_defs pass_defs)
  have "lookupIdentifier alice = ''a@x.com''"
    using C4_lookup_identifier [of MockClient 1700000000 alice emptyPool]
    by (simp add: specLookupIdentifier_def alice_def)
  moreover have "lookupIdentifier aliceWithSub = ''sub-1''"
    by (simp add: lookupIdentifier_def aliceWithSub_def alice_def)
  moreover have "lookupIdentifier aliceNoEmail = ''''"
    by (simp add: lookupIdentifier_def aliceNoEmail_def alice_def)
  ultimately show ?thesis using ev by blast
qed

text \<open>Alice without subject id and without email: the specification's identifier is her
  name, the get call of the code carries the empty string.\<close>

theorem C4_local_name_fallback_counterexample:
  "Status_Sub (Status aliceNoEmail) = '''' \<and> Spec_Email (Spec aliceNoEmail) = ''''
   \<and> Name aliceNoEmail = ''alice'' \<and> specLookupIdentifier aliceNoEmail = ''alice''
   \<and> trace (snd (syncUserWithUserPool MockClient 1700000000 aliceNoEmail emptyPool))
       = [GetUserCall '''', CreateUserCall (desiredPoolUser aliceNoEmail)]
   \<and> hd (trace (snd (syncUserWithUserPool MockClient 1700000000 aliceNoEmail emptyPool)))
       \<noteq> GetUserCall (specLookupIdentifier aliceNoEmail)"
  by (simp add: stub_defs mock_defs pass_defs aliceNoEmail_def specLookupIdentifier_def)

section \<open>C5: adding and removing the finalizer\<close>

text \<open>
  Claim C5. For every finalizer sequence \<open>S\<close>, the empty one included, and every marker
  \<open>m\<close>, removing \<open>m\<close> from the sequence obtained by appending \<open>m\<close> to \<open>S\<close> gives exactly
  \<open>S\<close>, where appending is the finalizer-add step of \<open>Reconcile\<close> and removing is
  \<open>removeFinalizer\<close> (which deletes every occurrence of \<open>m\<close> and keeps the order of the
  rest).

  Because the removal deletes every occurrence, the round trip loses the occurrences of
  \<open>m\<close> that \<open>S\<close> had before. Amended: for every \<open>S\<close> that does not contain \<open>m\<close>, the empty
  one included, removing \<open>m\<close> after adding it gives exactly \<open>S\<close>, for the plain append and
  for the add step of \<open>Reconcile\<close>, which appends only when \<open>m\<close> is absent.
\<close>

theorem C5_round_trip_fresh:
  assumes "\<not> containsFinalizer S m"
  shows "removeFinalizer (addFinalizer S m) m = S \<and> removeFinalizer (S @ [m]) m = S"
  using assms
  by (auto simp: addFinalizer_def removeFinalizer_filter containsFinalizer_set filter_id_conv)

theorem C5_round_trip_fresh_witness:
  "\<not> containsFinalizer [''a'', ''b''] ''m''
   \<and> removeFinalizer (addFinalizer [''a'', ''b''] ''m'') ''m'' = [''a'', ''b'']
   \<and> removeFinalizer ([''a'', ''b''] @ [''m'']) ''m'' = [''a'', ''b'']
   \<and> \<not> containsFinalizer [] finalizerName
   \<and> removeFinalizer (addFinalizer [] finalizerName) finalizerName = []"
proof -
  have h1: "\<not> containsFinalizer [''a'', ''b''] ''m''" by simp
  have h2: "\<not> containsFinalizer [] finalizerName" by simp
  show ?thesis
    using h1 h2 C5_round_trip_fresh [OF h1] C5_round_trip_fresh [OF h2] by simp
qed

text \<open>A sequence that already holds the marker does not come back.\<close>

theorem C5_round_trip_counterexample:
  "removeFinalizer ([''m''] @ [''m'']) ''m'' = []
   \<and> removeFinalizer (addFinalizer [''m''] ''m'') ''m'' = []
   \<and> \<not> (\<forall>S m. removeFinalizer (S @ [m]) m = S)
   \<and> \<not> (\<forall>S m. removeFinalizer (addFinalizer S m) m = S)"
proof -
  have a: "removeFinalizer ([''m''] @ [''m'']) ''m'' = []"
    by (simp add: removeFinalizer_def)
  have b: "removeFinalizer (addFinalizer [''m''] ''m'') ''m'' = []"
    by (simp add: removeFinalizer_def addFinalizer_def)
  have c: "\<not> (\<forall>S m. removeFinalizer (S @ [m]) m = S)"
  proof
    assume "\<forall>S m. removeFinalizer (S @ [m]) m = S"
    then have "removeFinalizer ([''m''] @ [''m'']) ''m'' = [''m'']" by blast
    with a show False by simp
  qed
  have d: "\<not> (\<forall>S m. removeFinalizer (addFinalizer S m) m = S)"
  proof
    assume "\<forall>S m. removeFinalizer (addFinalizer S m) m = S"
    then have "removeFinalizer (addFinalizer [''m''] ''m'') ''m'' = [''m'']" by blast
    with b show False by simp
  qed
  from a b c d show ?thesis by blast
qed

section \<open>C6: a failed create is retried in five minutes\<close>

text \<open>
  Claim C6. For every user that is not being deleted, when the get of the sync pass
  reports not found and the create that follows returns an error, \<open>Reconcile\<close> returns
  that error with a requeue delay of five minutes, and the pass leaves the status as it
  was (in particular an empty \<open>status.sub\<close> stays empty).

  The error returned is the create's error wrapped with
  \<open>failed to create user in user pool\<close>; the get may fail with any error. No event of
  the pass touches the status: there is no status write, and the only possible write of
  the object, the one that adds the finalizer, carries the fetched status. The sync pass
  itself hands back the user unchanged.
\<close>

theorem C6_create_failure_requeues:
  assumes cl: "GetCluster (Manager r) (ClusterName req) = None"
    and got: "KubeGet (Manager r) req (kube w) = Fetched u"
    and live: "DeletionTimestamp u = None"
    and client: "UserPoolClient r = Some c"
    and fin: "containsFinalizer (Finalizers u) finalizerName
              \<or> fst (KubeUpdate (Manager r) req
                      (u\<lparr>Finalizers := Finalizers u @ [finalizerName]\<rparr>) (kube w)) = None"
    and get: "GetUser c (lookupIdentifier u) (pool w) = (Inl e0, p1)"
    and create: "CreateUser c (desiredPoolUser u) p1 = (Inl e, p2)"
  shows "fst (Reconcile r req w) =
           (\<lparr>Requeue = False, RequeueAfter = 5 * Minute\<rparr>,
            Some (Wrapf ''failed to create user in user pool'' e))
         \<and> (\<exists>es. trace (snd (Reconcile r req w)) = trace w @ es
                  \<and> list_all (statusUntouched (Status u)) es)
         \<and> fst (syncUserWithUserPool c (MetaNow r) u w) =
             (Some (Wrapf ''failed to create user in user pool'' e), u)"
proof -
  have sync: "syncUserWithUserPool c now u1 w1 =
      ((Some (Wrapf ''failed to create user in user pool'' e), u1),
       w1\<lparr>pool := p2, trace := trace w1 @ [GetUserCall (lookupIdentifier u),
                                            CreateUserCall (desiredPoolUser u)]\<rparr>)"
    if "pool w1 = pool w" "Status u1 = Status u" "Spec u1 = Spec u" "Name u1 = Name u"
    for now u1 and w1 :: "('a, 'b) world"
  proof -
    have "lookupIdentifier u1 = lookupIdentifier u" "desiredPoolUser u1 = desiredPoolUser u"
      using that by (simp_all add: lookupIdentifier_def desiredPoolUser_def)
    then show ?thesis
      using that(1) get create
      by (simp add: sync_get_first callGetUser_def callCreateUser_def)
  qed
  show ?thesis
  proof (cases "containsFinalizer (Finalizers u) finalizerName")
    case True
    then show ?thesis
      using cl got live client sync [of w u]
      by (simp add: Reconcile_def)
  next
    case False
    define u1 where "u1 = u\<lparr>Finalizers := Finalizers u @ [finalizerName]\<rparr>"
    define w1 where "w1 = w\<lparr>kube := snd (KubeUpdate (Manager r) req u1 (kube w)),
        trace := trace w @ [KubeUpdateCall u1 True]\<rparr>"
    have call: "callKubeUpdate (Manager r) req u1 w = (None, w1)"
      using fin False by (auto simp: callKubeUpdate_def u1_def w1_def split: prod.splits)
    have s1: "syncUserWithUserPool c (MetaNow r) u1 w1 =
      ((Some (Wrapf ''failed to create user in user pool'' e), u1),
       w1\<lparr>pool := p2, trace := trace w1 @ [GetUserCall (lookupIdentifier u),
                                            CreateUserCall (desiredPoolUser u)]\<rparr>)"
      by (rule sync) (simp_all add: u1_def w1_def)
    have rec: "Reconcile r req w =
        ((\<lparr>Requeue = False, RequeueAfter = Minute * 5\<rparr>,
          Some (Wrapf ''failed to create user in user pool'' e)),
         w1\<lparr>pool := p2, trace := trace w1 @ [GetUserCall (lookupIdentifier u),
                                            CreateUserCall (desiredPoolUser u)]\<rparr>)"
      using cl got live client False call s1
      by (simp add: Reconcile_def u1_def [symmetric] Let_def)
    show ?thesis
      using rec sync [of w u] by (simp add: w1_def u1_def)
  qed
qed

text \<open>The retry scenario of the controller's tests: get reports not found, create fails;
  five minutes are 300000000000 nanoseconds.\<close>

theorem C6_create_failure_requeues_witness:
  "GetCluster (Manager (stubReconciler (Fetched alice) (Some createFailsClient)))
      (ClusterName aliceRequest) = None
   \<and> KubeGet (Manager (stubReconciler (Fetched alice) (Some createFailsClient)))
        aliceRequest (kube emptyWorld) = Fetched alice
   \<and> DeletionTimestamp alice = None
   \<and> GetUser createFailsClient (lookupIdentifier alice) (pool emptyWorld)
       = (Inl (Errorf ''user not found''), ())
   \<and> CreateUser createFailsClient (desiredPoolUser alice) ()
       = (Inl (Errorf ''creation failed''), ())
   \<and> fst (Reconcile (stubReconciler (Fetched alice) (Some createFailsClient))
         aliceRequest emptyWorld)
       = (\<lparr>Requeue = False, RequeueAfter = 300000000000\<rparr>,
          Some (Wrapf ''failed to create user in user pool'' (Errorf ''creation failed'')))
   \<and> trace (snd (Reconcile (stubReconciler (Fetched alice) (Some createFailsClient))
         aliceRequest emptyWorld))
       = [KubeUpdateCall (alice\<lparr>Finalizers := [finalizerName]\<rparr>) True,
          GetUserCall ''a@x.com'', CreateUserCall (desiredPoolUser alice)]
   \<and> Status_Sub (Status alice) = ''''"
proof -
  note defs = stub_defs createFailsClient_def
  have h1: "GetCluster (Manager (stubReconciler (Fetched alice) (Some createFailsClient)))
      (ClusterName aliceRequest) = None"
    by (simp add: defs)
  have h2: "KubeGet (Manager (stubReconciler (Fetched alice) (Some createFailsClient)))
        aliceRequest (kube emptyWorld) = Fetched alice"
    by (simp add: defs)
  have h3: "DeletionTimestamp alice = None"
    by (simp add: defs)
  have h4: "UserPoolClient (stubReconciler (Fetched alice) (Some createFailsClient))
      = Some createFailsClient"
    by (simp add: defs)
  have h5: "containsFinalizer (Finalizers alice) finalizerName
      \<or> fst (KubeUpdate (Manager (stubReconciler (Fetched alice) (Some createFailsClient)))
            aliceRequest (alice\<lparr>Finalizers := Finalizers alice @ [finalizerName]\<rparr>)
            (kube emptyWorld)) = None"
    by (simp add: defs)
  have h6: "GetUser createFailsClient (lookupIdentifier alice) (pool emptyWorld)
       = (Inl (Errorf ''user not found''), ())"
    by (simp add: defs)
  have h7: "CreateUser createFailsClient (desiredPoolUser alice) ()
       = (Inl (Errorf ''creation failed''), ())"
    by (simp add: defs)
  have res: "fst (Reconcile (stubReconciler (Fetched alice) (Some createFailsClient))
         aliceRequest emptyWorld)
       = (\<lparr>Requeue = False, RequeueAfter = 300000000000\<rparr>,
          Some (Wrapf ''failed to create user in user pool'' (Errorf ''creation failed'')))"
    using C6_create_failure_requeues [OF h1 h2 h3 h4 h5 h6 h7] by (simp add: Minute_def)
  have tr: "trace (snd (Reconcile (stubReconciler (Fetched alice) (Some createFailsClient))
         aliceRequest emptyWorld))
       = [KubeUpdateCall (alice\<lparr>Finalizers := [finalizerName]\<rparr>) True,
          GetUserCall ''a@x.com'', CreateUserCall (desiredPoolUser alice)]"
    by (simp add: defs pass_defs)
  have e: "Status_Sub (Status alice) = ''''"
    by (simp add: alice_def)
  from h1 h2 h3 h6 h7 res tr e show ?thesis by blast
qed

section \<open>C7: a found account is updated only on drift\<close>

text \<open>
  Claim C7. Whenever the get of the sync pass succeeds, create is never called; update is
  called exactly once if and only if the found account's email or enabled flag differs
  from the spec; and on success (the fields match, or the update succeeds) the last sync
  time is set and the subject id is taken from the found account if \<open>status.sub\<close> was
  empty.
\<close>

theorem C7_found_account_updates_only_on_drift:
  assumes got: "GetUser c (lookupIdentifier u) (pool w) = (Inr existing, p1)"
  shows "let differs = (Email existing \<noteq> Spec_Email (Spec u)
                          \<or> Enabled existing \<noteq> Spec_Enabled (Spec u));
             outcome = syncUserWithUserPool c now u w;
             err = fst (fst outcome);
             u' = snd (fst outcome)
         in (\<exists>es. trace (snd outcome) = trace w @ es
                  \<and> es = GetUserCall (lookupIdentifier u)
                          # (if differs then [UpdateUserCall (desiredPoolUser u)] else [])
                  \<and> length (filter isCreateUserCall es) = 0
                  \<and> length (filter isUpdateUserCall es) = (if differs then 1 else 0))
            \<and> (err = None \<longleftrightarrow>
                  (\<not> differs \<or> fst (UpdateUser c (desiredPoolUser u) p1) = None))
            \<and> (err = None \<longrightarrow>
                  LastSyncTime (Status u') = Some now
                  \<and> Status_Sub (Status u') =
                      (if Status_Sub (Status u) = '''' then Sub existing
                       else Status_Sub (Status u)))"
proof (cases "Email existing \<noteq> Spec_Email (Spec u)
              \<or> Enabled existing \<noteq> Spec_Enabled (Spec u)")
  case True
  obtain answer p2 where upd: "UpdateUser c (desiredPoolUser u) p1 = (answer, p2)"
    by (cases "UpdateUser c (desiredPoolUser u) p1")
  show ?thesis
  proof (cases answer)
    case None
    with True got upd show ?thesis
      by (simp add: sync_get_first callGetUser_def callUpdateUser_def Let_def)
  next
    case (Some err')
    with True got upd show ?thesis
      by (simp add: sync_get_first callGetUser_def callUpdateUser_def Let_def)
  qed
next
  case False
  with got show ?thesis
    by (simp add: sync_get_first callGetUser_def Let_def)
qed

text \<open>The update scenario: Alice carries \<open>sub-1\<close>, the pool holds her account with an old
  email.\<close>

theorem C7_found_account_updates_only_on_drift_witness:
  "GetUser staleEmailClient (lookupIdentifier aliceWithSub) (pool emptyWorld)
     = (Inr \<lparr>Username = ''alice'', Email = ''old@x.com'', Enabled = True, Sub = ''sub-1''\<rparr>, ())
   \<and> trace (snd (syncUserWithUserPool staleEmailClient 1700000000 aliceWithSub emptyWorld))
       = [GetUserCall ''sub-1'',
          UpdateUserCall \<lparr>Username = ''alice'', Email = ''a@x.com'', Enabled = True, Sub = ''''\<rparr>]
   \<and> fst (fst (syncUserWithUserPool staleEmailClient 1700000000 aliceWithSub emptyWorld)) = None
   \<and> LastSyncTime (Status (snd (fst (syncUserWithUserPool staleEmailClient 1700000000
         aliceWithSub emptyWorld)))) = Some 1700000000
   \<and> Status_Sub (Status (snd (fst (syncUserWithUserPool staleEmailClient 1700000000
         aliceWithSub emptyWorld)))) = ''sub-1''"
proof -
  note defs = stub_defs staleEmailClient_def aliceWithSub_def
  have h: "GetUser staleEmailClient (lookupIdentifier aliceWithSub) (pool emptyWorld)
     = (Inr \<lparr>Username = ''alice'', Email = ''old@x.com'', Enabled = True, Sub = ''sub-1''\<rparr>, ())"
    by (simp add: defs)
  have tw: "trace emptyWorld = []"
    by (simp add: emptyWorld_def)
  have up: "UpdateUser staleEmailClient (desiredPoolUser aliceWithSub) () = (None, ())"
    by (simp add: defs)
  have f: "Spec_Email (Spec aliceWithSub) = ''a@x.com''" "Spec_Enabled (Spec aliceWithSub)"
    "Status_Sub (Status aliceWithSub) = ''sub-1''" "Name aliceWithSub = ''alice''"
    by (simp_all add: defs)
  show ?thesis
    using C7_found_account_updates_only_on_drift [OF h, of 1700000000] h tw up f
    by (simp add: Let_def lookupIdentifier_def desiredPoolUser_def)
qed

section \<open>C8: the status after a create\<close>

text \<open>
  Claim C8. For a user with empty \<open>status.sub\<close> whose get reports not found and whose
  create succeeds with an account of subject id \<open>sub-1\<close>, the status after the sync pass
  is exactly: \<open>status.sub = sub-1\<close>, user pool status \<open>CONFIRMED\<close> and a last sync time
  that is set. The other fields of the status stay as they were.
\<close>

theorem C8_create_path_status:
  assumes empty: "Status_Sub (Status u) = ''''"
    and get: "GetUser c (Spec_Email (Spec u)) (pool w) = (Inl e0, p1)"
    and create: "CreateUser c (desiredPoolUser u) p1 = (Inr created, p2)"
    and sub: "Sub created = ''sub-1''"
  shows "fst (syncUserWithUserPool c now u w) = (None, u\<lparr>Status := (Status u)\<lparr>
            Status_Sub := ''sub-1'', UserPoolStatus := ''CONFIRMED'',
            LastSyncTime := Some now\<rparr>\<rparr>)
         \<and> Status_Sub (Status (snd (fst (syncUserWithUserPool c now u w)))) = ''sub-1''
         \<and> UserPoolStatus (Status (snd (fst (syncUserWithUserPool c now u w)))) = ''CONFIRMED''
         \<and> LastSyncTime (Status (snd (fst (syncUserWithUserPool c now u w)))) \<noteq> None"
proof -
  have "lookupIdentifier u = Spec_Email (Spec u)"
    using empty by (simp add: lookupIdentifier_def)
  with get create sub show ?thesis
    by (simp add: sync_get_first callGetUser_def callCreateUser_def)
qed

text \<open>The create scenario of the specification.\<close>

theorem C8_create_path_status_witness:
  "Status_Sub (Status alice) = ''''
   \<and> GetUser createSucceedsClient (Spec_Email (Spec alice)) (pool emptyWorld)
       = (Inl (Errorf ''user not found''), ())
   \<and> CreateUser createSucceedsClient (desiredPoolUser alice) ()
       = (Inr \<lparr>Username = ''alice'', Email = ''a@x.com'', Enabled = True, Sub = ''sub-1''\<rparr>, ())
   \<and> Status (snd (fst (syncUserWithUserPool createSucceedsClient 1700000000 alice emptyWorld)))
       = \<lparr>Status_Sub = ''sub-1'', UserPoolStatus = ''CONFIRMED'',
          LastSyncTime = Some 1700000000, ObservedGeneration = 0, Conditions = []\<rparr>"
proof -
  note defs = stub_defs createSucceedsClient_def
  have h1: "Status_Sub (Status alice) = ''''"
    by (simp add: alice_def)
  have h2: "GetUser createSucceedsClient (Spec_Email (Spec alice)) (pool emptyWorld)
       = (Inl (Errorf ''user not found''), ())"
    by (simp add: defs)
  have h3: "CreateUser createSucceedsClient (desiredPoolUser alice) ()
       = (Inr \<lparr>Username = ''alice'', Email = ''a@x.com'', Enabled = True, Sub = ''sub-1''\<rparr>, ())"
    by (simp add: defs)
  have h4: "Sub \<lparr>Username = ''alice'', Email = ''a@x.com'', Enabled = True, Sub = ''sub-1''\<rparr>
      = ''sub-1''"
    by simp
  have "Status (snd (fst (syncUserWithUserPool createSucceedsClient 1700000000 alice
      emptyWorld)))
       = \<lparr>Status_Sub = ''sub-1'', UserPoolStatus = ''CONFIRMED'',
          LastSyncTime = Some 1700000000, ObservedGeneration = 0, Conditions = []\<rparr>"
    using C8_create_path_status [OF h1 h2 h3 h4, of 1700000000] by (simp add: alice_def)
  with h1 h2 h3 show ?thesis by blast
qed

section \<open>C9: deleting an account that does not exist\<close>

text \<open>
  Claim C9. For every identifier, the delete of every user pool client returns no error
  when the account does not exist in the pool; this holds for the AWS client and for the
  mock client.

  Both clients refuse the empty identifier with an error before they look at the pool,
  and the mock client answers \<open>user ... not found\<close> for a name its map does not hold.
  Amended: for every non-empty identifier, the delete of the AWS client returns no error
  when Cognito reports \<open>UserNotFoundException\<close> (bare or wrapped) for it; for the empty
  identifier both clients return the error \<open>username cannot be empty\<close> and leave the pool
  as it is. What the mock client answers for a non-empty name it does not hold is not
  part of the amended claim.
\<close>

theorem C9_delete_not_found:
  "(username \<noteq> '''' \<and> AdminDeleteUser (cognito c) (userPoolID c) username p = (Some err, p1)
      \<and> asUserNotFoundException err
      \<longrightarrow> AWSClient_DeleteUser c username p = (None, p1))
   \<and> AWSClient_DeleteUser c '''' p = (Some (Errorf ''username cannot be empty''), p)
   \<and> MockClient_DeleteUser '''' users = (Some (Errorf ''username cannot be empty''), users)"
  by (simp add: AWSClient_DeleteUser_def MockClient_DeleteUser_def)

theorem C9_delete_not_found_witness:
  "''ghost@x.com'' \<noteq> ''''
   \<and> AdminDeleteUser (cognito emptyCognito) (userPoolID emptyCognito) ''ghost@x.com'' ()
       = (Some (UserNotFoundException ''User does not exist.''), ())
   \<and> asUserNotFoundException (UserNotFoundException ''User does not exist.'')
   \<and> AWSClient_DeleteUser emptyCognito ''ghost@x.com'' () = (None, ())"
proof -
  have h: "''ghost@x.com'' \<noteq> ''''
     \<and> AdminDeleteUser (cognito emptyCognito) (userPoolID emptyCognito) ''ghost@x.com'' ()
         = (Some (UserNotFoundException ''User does not exist.''), ())
     \<and> asUserNotFoundException (UserNotFoundException ''User does not exist.'')"
    by (simp add: emptyCognito_def stubCognito_def)
  with C9_delete_not_found [of "''ghost@x.com''" emptyCognito "()"
      "UserNotFoundException ''User does not exist.''" "()"]
  show ?thesis by blast
qed

text \<open>The mock client with no account at all, asked to delete \<open>u1\<close>; and the AWS client
  asked to delete the empty name from a pool that knows no user.\<close>

theorem C9_delete_not_found_counterexample:
  "Map.empty ''u1'' = (None :: pool_user option)
   \<and> MockClient_DeleteUser ''u1'' Map.empty = (Some (Errorf ''user u1 not found''), Map.empty)
   \<and> fst (DeleteUser MockClient ''u1'' Map.empty) \<noteq> None
   \<and> fst (AWSClient_DeleteUser emptyCognito '''' ()) \<noteq> None"
  by (simp add: MockClient_def MockClient_DeleteUser_def AWSClient_DeleteUser_def)

section \<open>C10: the AWS client's get returns the identifier as the subject id\<close>

text \<open>
  Claim C10. For every non-empty identifier \<open>i\<close>, a successful \<open>AWSClient.GetUser(i)\<close>
  returns an account whose \<open>Sub\<close> is \<open>i\<close> itself, not a value read from the provider's
  attributes; so when the sync pass looks a user up by spec email because \<open>status.sub\<close>
  is empty and then takes the subject id from the found account, what it stores in
  \<open>status.sub\<close> is the email of the lookup, not a subject id the provider issued.

  A successful get has a non-empty identifier: the empty one is refused.
\<close>

theorem C10_aws_get_user_sub_is_identifier:
  "(\<forall>i p acc p1. AWSClient_GetUser c i p = (Inr acc, p1) \<longrightarrow> Sub acc = i \<and> i \<noteq> '''')
   \<and> (\<forall>u now acc. \<forall>w :: ('k, 'p) world.
         Status_Sub (Status u) = ''''
         \<and> fst (AWSClient_GetUser c (Spec_Email (Spec u)) (pool w)) = Inr acc
         \<and> fst (fst (syncUserWithUserPool (AWSClient c) now u w)) = None
         \<longrightarrow> Status_Sub (Status (snd (fst (syncUserWithUserPool (AWSClient c) now u w))))
             = Spec_Email (Spec u)
           \<and> Spec_Email (Spec u) \<noteq> '''')"
proof -
  have a: "Sub acc = i \<and> i \<noteq> ''''" if "AWSClient_GetUser c i p = (Inr acc, p1)"
    for i p acc p1
    using that
    by (auto simp: AWSClient_GetUser_def Let_def split: if_splits prod.splits sum.splits
        option.splits)
  have b: "Status_Sub (Status (snd (fst (syncUserWithUserPool (AWSClient c) now u w))))
             = Spec_Email (Spec u) \<and> Spec_Email (Spec u) \<noteq> ''''"
    if e: "Status_Sub (Status u) = ''''"
      and g: "fst (AWSClient_GetUser c (Spec_Email (Spec u)) (pool w)) = Inr acc"
      and ok: "fst (fst (syncUserWithUserPool (AWSClient c) now u w)) = None"
    for u now acc and w :: "('k, 'p) world"
  proof -
    obtain p1 where g': "AWSClient_GetUser c (Spec_Email (Spec u)) (pool w) = (Inr acc, p1)"
      using g by (cases "AWSClient_GetUser c (Spec_Email (Spec u)) (pool w)") simp
    from a [OF g'] have s: "Sub acc = Spec_Email (Spec u)" "Spec_Email (Spec u) \<noteq> ''''"
      by simp_all
    have l: "lookupIdentifier u = Spec_Email (Spec u)"
      using e by (simp add: lookupIdentifier_def)
    have gu: "GetUser (AWSClient c) (Spec_Email (Spec u)) (pool w) = (Inr acc, p1)"
      using g' by (simp add: AWSClient_def)
    show ?thesis
      using ok e s
      by (simp add: sync_get_first l callGetUser_def gu callUpdateUser_def
          split: if_splits prod.splits option.splits)
  qed
  from a b show ?thesis by blast
qed

text \<open>Cognito holds Alice's account with the attribute \<open>sub = 3f1c-uuid\<close>; looked up by her
  email, the account comes back with the email as \<open>Sub\<close>, and the sync pass stores the
  email in \<open>status.sub\<close>.\<close>

theorem C10_aws_get_user_sub_is_identifier_witness:
  "AWSClient_GetUser cognitoWithAlice ''a@x.com'' ()
     = (Inr \<lparr>Username = ''a@x.com'', Email = ''a@x.com'', Enabled = True, Sub = ''a@x.com''\<rparr>, ())
   \<and> firstAttribute ''sub'' [\<lparr>AttrName = Some ''sub'', AttrValue = Some ''3f1c-uuid''\<rparr>,
         \<lparr>AttrName = Some ''email'', AttrValue = Some ''a@x.com''\<rparr>] = Some ''3f1c-uuid''
   \<and> Status_Sub (Status alice) = ''''
   \<and> fst (fst (syncUserWithUserPool (AWSClient cognitoWithAlice) 1700000000 alice emptyWorld))
       = None
   \<and> Status_Sub (Status (snd (fst (syncUserWithUserPool (AWSClient cognitoWithAlice)
         1700000000 alice emptyWorld)))) = ''a@x.com''"
proof -
  note defs = stub_defs aws_defs cognitoWithAlice_def
  have g: "AWSClient_GetUser cognitoWithAlice ''a@x.com'' ()
     = (Inr \<lparr>Username = ''a@x.com'', Email = ''a@x.com'', Enabled = True, Sub = ''a@x.com''\<rparr>, ())"
    by (simp add: defs)
  have f: "firstAttribute ''sub'' [\<lparr>AttrName = Some ''sub'', AttrValue = Some ''3f1c-uuid''\<rparr>,
         \<lparr>AttrName = Some ''email'', AttrValue = Some ''a@x.com''\<rparr>] = Some ''3f1c-uuid''"
    by simp
  have e: "Status_Sub (Status alice) = ''''" "Spec_Email (Spec alice) = ''a@x.com''"
    "pool emptyWorld = ()"
    by (simp_all add: alice_def emptyWorld_def)
  have ok: "fst (fst (syncUserWithUserPool (AWSClient cognitoWithAlice) 1700000000 alice
      emptyWorld)) = None"
    by (simp add: defs pass_defs)
  from C10_aws_get_user_sub_is_identifier [of cognitoWithAlice] g e ok
  have "Status_Sub (Status (snd (fst (syncUserWithUserPool (AWSClient cognitoWithAlice)
         1700000000 alice emptyWorld)))) = ''a@x.com''"
    by (metis fst_conv)
  with g f e ok show ?thesis by blast
qed

end
